theory Spec2Isabelle
  imports Main
begin

section \<open>Values exchanged with the remote service\<close>

text \<open>
  The module \<^verbatim>\<open>roboflow/models/inference.py\<close> talks to a remote service through the
  \<^verbatim>\<open>requests\<close> library and to the image library \<^verbatim>\<open>PIL\<close>. Both are outside the
  repository: they appear below as fields of an environment record, and every call the
  module makes to \<^verbatim>\<open>requests\<close>, \<^verbatim>\<open>time.sleep\<close> or \<^verbatim>\<open>print\<close> is appended to a trace.

  A value returned by \<^verbatim>\<open>response.json()\<close>. Python dicts keep insertion order, so an object
  is an association list. A float is kept as mantissa and binary exponent; it compares
  equal to \<^verbatim>\<open>0\<close> exactly when the mantissa is zero.
\<close>

datatype json =
    JNull
  | JBool bool
  | JInt int
  | JFloat int int
  | JStr string
  | JList "json list"
  | JObj "(string \<times> json) list"

type_synonym bytes = "nat list"

text \<open>The exceptions the module can end with. \<open>Exception\<close> carries the message of a
  \<^verbatim>\<open>raise Exception(...)\<close> of the source; the others are raised by the interpreter or by
  a library.\<close>

datatype error =
    Exception string
  | IndexError
  | KeyError string
  | TypeError
  | AttributeError string
  | UnboundLocalError string
  | InvalidImagePath
  | ImageOpenError
  | ImageSaveError
  | RequestException string
  | HTTPError nat
  | JSONDecodeError

text \<open>One part of a \<^verbatim>\<open>MultipartEncoder\<close>: \<^verbatim>\<open>fields={name: (filename, data, content_type)}\<close>.\<close>

record part =
  field_name :: string
  filename :: string
  content :: bytes
  content_type :: string

text \<open>The URL handed to \<^verbatim>\<open>requests\<close>, kept as the source builds it:
  \<open>Encoded base params\<close> is \<^verbatim>\<open>f"{base}?{urllib.parse.urlencode(params)}"\<close>,
  \<open>Joined base rel\<close> is \<^verbatim>\<open>urljoin(base, rel)\<close>, and \<open>Given v\<close> is a value passed on as it
  came (an argument of the caller or a field of a response).\<close>

datatype url =
    Encoded string "(string \<times> string) list"
  | Joined string string
  | Given json

datatype body =
    NoBody
  | JsonText json
  | Multipart "part list"
  | Raw bytes

record request =
  req_method :: string
  req_url :: url
  req_headers :: "(string \<times> string) list option"
  req_body :: body

record response =
  status_code :: nat
  json_body :: "json option"

datatype outcome = Raises string | Responds response

datatype event = Http request | Sleep nat | Print string

type_synonym world = "event list"

record image =
  size' :: "nat \<times> nat"
  pixels :: bytes

text \<open>What the module takes from outside the file: the constant \<^verbatim>\<open>API_URL\<close> of
  \<^verbatim>\<open>roboflow.config\<close>, \<^verbatim>\<open>validate_image_path\<close> of \<^verbatim>\<open>roboflow.util.image_utils\<close> (it
  raises on an invalid path), the scheme \<^verbatim>\<open>urllib.parse.urlparse\<close> finds, \<^verbatim>\<open>Image.open\<close> and
  \<^verbatim>\<open>Image.save(format="JPEG", quality=q)\<close>, the boundary a \<^verbatim>\<open>MultipartEncoder\<close> draws, the
  file system, and the remote side: the outcome of a call to \<^verbatim>\<open>requests\<close> may depend on
  everything that happened before it.\<close>

record env =
  API_URL :: string
  validate_image_path :: "string \<Rightarrow> bool"
  urlparse_scheme :: "string \<Rightarrow> string"
  image_open :: "string \<Rightarrow> image option"
  save_jpeg :: "image \<Rightarrow> nat \<Rightarrow> bytes option"
  boundary :: string
  read_file :: "string \<Rightarrow> string + bytes"
  http :: "world \<Rightarrow> request \<Rightarrow> outcome"

text \<open>The instance: \<open>cls\<close> is \<^verbatim>\<open>self.__class__.__name__\<close>. The attributes \<^verbatim>\<open>api_url\<close>,
  \<^verbatim>\<open>type\<close> and \<^verbatim>\<open>job_id\<close> are not set by \<^verbatim>\<open>__init__\<close>; \<open>None\<close> is an absent attribute.\<close>

record client =
  cls :: string
  api_key :: string
  id' :: string
  dataset_id :: string
  version :: string
  colors :: "(string \<times> string) list"
  api_url :: "string option"
  type' :: "string option"
  job_id :: "json option"

section \<open>Python built-ins the module uses\<close>

text \<open>\<^verbatim>\<open>d[k] = v\<close> on a dict: an existing key keeps its position.\<close>

fun dict_set :: "('k \<times> 'v) list \<Rightarrow> 'k \<Rightarrow> 'v \<Rightarrow> ('k \<times> 'v) list" where
  "dict_set [] k v = [(k, v)]"
| "dict_set ((k', v') # d) k v =
     (if k' = k then (k, v) # d else (k', v') # dict_set d k v)"

text \<open>\<^verbatim>\<open>d.update(**kwargs)\<close>: the entries of \<open>kwargs\<close> are stored one by one.\<close>

fun dict_update :: "('k \<times> 'v) list \<Rightarrow> ('k \<times> 'v) list \<Rightarrow> ('k \<times> 'v) list" where
  "dict_update d [] = d"
| "dict_update d ((k, v) # kw) = dict_update (dict_set d k v) kw"

text \<open>\<^verbatim>\<open>s.rsplit(sep)\<close> for a one-character separator and no limit: the same list as
  \<^verbatim>\<open>s.split(sep)\<close>, one segment more than there are separators.\<close>

fun rsplit :: "string \<Rightarrow> char \<Rightarrow> string list" where
  "rsplit [] sep = [[]]"
| "rsplit (c # cs) sep =
     (if c = sep then [] # rsplit cs sep
      else (case rsplit cs sep of
              [] \<Rightarrow> [[c]]
            | seg # segs \<Rightarrow> (c # seg) # segs))"

definition startswith :: "string \<Rightarrow> string \<Rightarrow> bool" where
  "startswith s pre = (take (length pre) s = pre)"

definition digit :: "nat \<Rightarrow> char" where
  "digit d = ''0123456789'' ! d"

text \<open>\<^verbatim>\<open>str(n)\<close> for a non-negative integer.\<close>

fun str :: "nat \<Rightarrow> string" where
  "str n = (if n < 10 then [digit n] else str (n div 10) @ [digit (n mod 10)])"

declare str.simps [simp del]

text \<open>\<^verbatim>\<open>d[k]\<close> on a decoded JSON value with a string key.\<close>

fun subscript :: "json \<Rightarrow> string \<Rightarrow> error + json" where
  "subscript (JObj d) k = (case map_of d k of None \<Rightarrow> Inl (KeyError k) | Some v \<Rightarrow> Inr v)"
| "subscript _ k = Inl TypeError"

text \<open>\<^verbatim>\<open>d.get(k)\<close>: only a dict has the method; a missing key gives \<^verbatim>\<open>None\<close>.\<close>

fun get :: "json \<Rightarrow> string \<Rightarrow> error + json" where
  "get (JObj d) k = (case map_of d k of None \<Rightarrow> Inr JNull | Some v \<Rightarrow> Inr v)"
| "get _ k = Inl (AttributeError ''get'')"

text \<open>\<^verbatim>\<open>v != 0\<close> in Python: \<^verbatim>\<open>0\<close>, \<^verbatim>\<open>0.0\<close> and \<^verbatim>\<open>False\<close> are equal to \<^verbatim>\<open>0\<close>.\<close>

fun ne_zero :: "json \<Rightarrow> bool" where
  "ne_zero (JInt i) = (i \<noteq> 0)"
| "ne_zero (JFloat m e) = (m \<noteq> 0)"
| "ne_zero (JBool b) = b"
| "ne_zero _ = True"

section \<open>Module constants\<close>

definition SUPPORTED_ROBOFLOW_MODELS :: "string list" where
  "SUPPORTED_ROBOFLOW_MODELS = [''batch-video'']"

definition SUPPORTED_ADDITIONAL_MODELS :: "(string \<times> json) list" where
  "SUPPORTED_ADDITIONAL_MODELS =
     [(''clip'', JObj [(''model_id'', JStr ''clip''),
                       (''model_version'', JStr ''1''),
                       (''inference_type'', JStr ''clip-embed-image'')]),
      (''gaze'', JObj [(''model_id'', JStr ''gaze''),
                       (''model_version'', JStr ''1''),
                       (''inference_type'', JStr ''gaze-detection'')])]"

section \<open>\<^verbatim>\<open>InferenceModel.__init__\<close>\<close>

text \<open>\<^verbatim>\<open>version_info[1]\<close> and \<^verbatim>\<open>version_info[2]\<close> raise \<^verbatim>\<open>IndexError\<close> on a list that is
  too short.\<close>

definition init :: "string \<Rightarrow> string \<Rightarrow> string \<Rightarrow> (string \<times> string) list option
    \<Rightarrow> error + client" where
  "init class_name key version_id colors_arg =
     (let version_info = rsplit version_id CHR ''/'' in
      if length version_info \<le> 1 then Inl IndexError
      else if length version_info \<le> 2 then Inl IndexError
      else Inr \<lparr> cls = class_name,
                 api_key = key,
                 id' = version_id,
                 dataset_id = version_info ! 1,
                 version = version_info ! 2,
                 colors = (case colors_arg of None \<Rightarrow> [] | Some cs \<Rightarrow> cs),
                 api_url = None,
                 type' = None,
                 job_id = None \<rparr>)"

section \<open>\<^verbatim>\<open>InferenceModel.__get_image_params\<close>\<close>

text \<open>The keyword arguments for \<^verbatim>\<open>requests.post\<close>: \<^verbatim>\<open>{}\<close> or \<^verbatim>\<open>{"data": ..., "headers": ...}\<close>.\<close>

record request_kwargs =
  kw_data :: body
  kw_headers :: "(string \<times> string) list option"

definition multipart_content_type :: "env \<Rightarrow> string" where
  "multipart_content_type e = ''multipart/form-data; boundary='' @ boundary e"

definition get_image_params :: "env \<Rightarrow> string
    \<Rightarrow> error + ((string \<times> string) list \<times> request_kwargs \<times> (string \<times> string) list)" where
  "get_image_params e image_path =
     (if \<not> validate_image_path e image_path then Inl InvalidImagePath
      else
        let hosted_image = (urlparse_scheme e image_path \<in> set [''http'', ''https'']) in
        if hosted_image then
          (let image_dims = [(''width'', ''Undefined''), (''height'', ''Undefined'')] in
           Inr ([(''image'', image_path)], \<lparr> kw_data = NoBody, kw_headers = None \<rparr>, image_dims))
        else
          (case image_open e image_path of
             None \<Rightarrow> Inl ImageOpenError
           | Some img \<Rightarrow>
               let dimensions = size' img;
                   image_dims = [(''width'', str (fst dimensions)),
                                 (''height'', str (snd dimensions))] in
               (case save_jpeg e img 90 of
                  None \<Rightarrow> Inl ImageSaveError
                | Some buffered \<Rightarrow>
                    let data = Multipart [\<lparr> field_name = ''file'',
                                             filename = ''imageToUpload'',
                                             content = buffered,
                                             content_type = ''image/jpeg'' \<rparr>] in
                    Inr ([],
                         \<lparr> kw_data = data,
                           kw_headers = Some [(''Content-Type'', multipart_content_type e)] \<rparr>,
                         image_dims))))"

section \<open>\<^verbatim>\<open>InferenceModel.predict\<close>\<close>

text \<open>The arguments handed to \<^verbatim>\<open>PredictionGroup.create_prediction_group\<close>.\<close>

record prediction_group =
  pg_json :: json
  pg_image_path :: string
  pg_prediction_type :: "string option"
  pg_image_dims :: "(string \<times> string) list"
  pg_colors :: "(string \<times> string) list"

text \<open>One call to \<^verbatim>\<open>requests\<close>: the outcome the environment gives for it, and the trace
  with the call appended.\<close>

definition call :: "env \<Rightarrow> world \<Rightarrow> request \<Rightarrow> outcome \<times> world" where
  "call e w r = (http e w r, w @ [Http r])"

text \<open>The query parameters \<^verbatim>\<open>predict\<close> encodes: the builder's, then \<^verbatim>\<open>api_key\<close>, then the
  caller's keyword arguments.\<close>

definition predict_params :: "client \<Rightarrow> (string \<times> string) list \<Rightarrow> (string \<times> string) list
    \<Rightarrow> (string \<times> string) list" where
  "predict_params c params kwargs =
     dict_update (dict_set params ''api_key'' (api_key c)) kwargs"

definition predict :: "env \<Rightarrow> client \<Rightarrow> string \<Rightarrow> string option \<Rightarrow> (string \<times> string) list
    \<Rightarrow> world \<Rightarrow> (error + prediction_group) \<times> world" where
  "predict e c image_path prediction_type kwargs w =
     (case get_image_params e image_path of
        Inl err \<Rightarrow> (Inl err, w)
      | Inr (params0, request_kwargs, image_dims) \<Rightarrow>
          let params = predict_params c params0 kwargs in
          (case api_url c of
             None \<Rightarrow> (Inl (AttributeError ''api_url''), w)
           | Some base \<Rightarrow>
               (case call e w \<lparr> req_method = ''POST'',
                                req_url = Encoded base params,
                                req_headers = kw_headers request_kwargs,
                                req_body = kw_data request_kwargs \<rparr> of
                  (Raises msg, w1) \<Rightarrow> (Inl (RequestException msg), w1)
                | (Responds r, w1) \<Rightarrow>
                    if 400 \<le> status_code r \<and> status_code r < 600
                    then (Inl (HTTPError (status_code r)), w1)
                    else (case json_body r of
                            None \<Rightarrow> (Inl JSONDecodeError, w1)
                          | Some j \<Rightarrow>
                              (Inr \<lparr> pg_json = j,
                                     pg_image_path = image_path,
                                     pg_prediction_type = prediction_type,
                                     pg_image_dims = image_dims,
                                     pg_colors = colors c \<rparr>, w1)))))"

section \<open>\<^verbatim>\<open>InferenceModel.predict_video\<close>\<close>

text \<open>The first name of \<^verbatim>\<open>additional_models\<close> that is not a key of
  \<^verbatim>\<open>SUPPORTED_ADDITIONAL_MODELS\<close>, as the first loop of the method meets it.\<close>

definition first_unsupported :: "string list \<Rightarrow> string option" where
  "first_unsupported additional_models =
     find (\<lambda>model. map_of SUPPORTED_ADDITIONAL_MODELS model = None) additional_models"

text \<open>The chain of tests on \<^verbatim>\<open>self.__class__.__name__\<close>; \<open>None\<close> is the final
  \<^verbatim>\<open>raise\<close>.\<close>

definition resolve_type :: "string \<Rightarrow> string option" where
  "resolve_type model_class =
     (if model_class = ''ObjectDetectionModel'' then Some ''object-detection''
      else if model_class = ''ClassificationModel'' then Some ''classification''
      else if model_class = ''InstanceSegmentationModel'' then Some ''instance-segmentation''
      else None)"

text \<open>The branch for a path that is not an http(s) URL: ask for a signed URL, read the
  file, \<^verbatim>\<open>PUT\<close> it. It leaves \<^verbatim>\<open>signed_url\<close> and \<^verbatim>\<open>headers\<close> bound; the response to the
  \<^verbatim>\<open>PUT\<close> is not looked at.\<close>

definition upload_video :: "env \<Rightarrow> client \<Rightarrow> string \<Rightarrow> world
    \<Rightarrow> (error + json \<times> (string \<times> string) list) \<times> world" where
  "upload_video e c video_path w =
     (let url = Joined (API_URL e) (''/video_upload_signed_url?api_key='' @ api_key c);
          payload = JsonText (JObj [(''file_name'', JStr video_path)]);
          headers = [(''Content-Type'', ''application/json'')] in
      case call e w \<lparr> req_method = ''POST'', req_url = url,
                       req_headers = Some headers, req_body = payload \<rparr> of
        (Raises msg, w1) \<Rightarrow> (Inl (Exception (''Error uploading video: '' @ msg)), w1)
      | (Responds r, w1) \<Rightarrow>
          (case json_body r of
             None \<Rightarrow> (Inl JSONDecodeError, w1)
           | Some d \<Rightarrow>
               (case subscript d ''signed_url'' of
                  Inl err \<Rightarrow> (Inl err, w1)
                | Inr signed_url \<Rightarrow>
                    let headers = [(''Content-Type'', ''application/octet-stream'')] in
                    (case read_file e video_path of
                       Inl msg \<Rightarrow> (Inl (Exception (''Error reading video: '' @ msg)), w1)
                     | Inr video_data \<Rightarrow>
                         (case call e w1 \<lparr> req_method = ''PUT'', req_url = Given signed_url,
                                           req_headers = Some headers,
                                           req_body = Raw video_data \<rparr> of
                            (Raises msg, w2) \<Rightarrow>
                              (Inl (Exception (''There was an error uploading the video: '' @ msg)),
                               w2)
                          | (Responds r2, w2) \<Rightarrow> (Inr (signed_url, headers), w2))))))"

text \<open>The second loop over \<^verbatim>\<open>additional_models\<close>:
  \<^verbatim>\<open>models.append(SUPPORTED_ADDITIONAL_MODELS[model])\<close>.\<close>

fun append_models :: "json list \<Rightarrow> string list \<Rightarrow> error + json list" where
  "append_models models [] = Inr models"
| "append_models models (model # rest) =
     (case map_of SUPPORTED_ADDITIONAL_MODELS model of
        None \<Rightarrow> Inl (KeyError model)
      | Some descriptor \<Rightarrow> append_models (models @ [descriptor]) rest)"

text \<open>The body of the job-submission request.\<close>

definition job_payload :: "json \<Rightarrow> json list \<Rightarrow> json" where
  "job_payload signed_url models =
     JObj [(''input_url'', signed_url), (''infer_fps'', JInt 5), (''models'', JList models)]"

text \<open>From line 225 on: build the ensemble, submit the job, cache and return the job id.
  \<open>headers\<close> is \<open>None\<close> when the local variable was never assigned.\<close>

definition submit_job :: "env \<Rightarrow> client \<Rightarrow> string \<Rightarrow> json \<Rightarrow> (string \<times> string) list option
    \<Rightarrow> string list \<Rightarrow> world \<Rightarrow> (error + json \<times> json) \<times> client \<times> world" where
  "submit_job e c inference_type signed_url headers additional_models w =
     (let url = Joined (API_URL e) (''/videoinfer/?api_key='' @ api_key c);
          models = [JObj [(''model_id'', JStr (dataset_id c)),
                          (''model_version'', JStr (version c)),
                          (''inference_type'', JStr inference_type)]] in
      case append_models models additional_models of
        Inl err \<Rightarrow> (Inl err, c, w)
      | Inr models \<Rightarrow>
          let payload = JsonText (job_payload signed_url models) in
          (case headers of
             None \<Rightarrow> (Inl (UnboundLocalError ''headers''), c, w)
           | Some hs \<Rightarrow>
               (case call e w \<lparr> req_method = ''POST'', req_url = url,
                                req_headers = Some hs, req_body = payload \<rparr> of
                  (Raises msg, w1) \<Rightarrow> (Inl (RequestException msg), c, w1)
                | (Responds r, w1) \<Rightarrow>
                    (case json_body r of
                       None \<Rightarrow> (Inl JSONDecodeError, c, w1)
                     | Some d \<Rightarrow>
                         (case subscript d ''job_id'' of
                            Inl err \<Rightarrow> (Inl err, c, w1)
                          | Inr job \<Rightarrow>
                              (Inr (job, signed_url), c\<lparr> job_id := Some job \<rparr>, w1))))))"

definition predict_video :: "env \<Rightarrow> client \<Rightarrow> string \<Rightarrow> int \<Rightarrow> string list \<Rightarrow> string
    \<Rightarrow> world \<Rightarrow> (error + json \<times> json) \<times> client \<times> world" where
  "predict_video e c video_path fps additional_models prediction_type w =
     (if fps > 5 then (Inl (Exception ''FPS must be less than or equal to 5.''), c, w)
      else
        (case first_unsupported additional_models of
           Some model \<Rightarrow>
             (Inl (Exception (''Model '' @ model @ '' is not supported for video inference.'')),
              c, w)
         | None \<Rightarrow>
             if prediction_type \<notin> set SUPPORTED_ROBOFLOW_MODELS
             then (Inl (Exception (prediction_type @ '' is not supported for video inference.'')),
                   c, w)
             else
               (case resolve_type (cls c) of
                  None \<Rightarrow> (Inl (Exception ''Model type not supported for video inference.''), c, w)
                | Some t \<Rightarrow>
                    let c1 = c\<lparr> type' := Some t \<rparr> in
                    if \<not> (startswith video_path ''http://'' \<or> startswith video_path ''https://'')
                    then
                      (case upload_video e c1 video_path w of
                         (Inl err, w1) \<Rightarrow> (Inl err, c1, w1)
                       | (Inr (signed_url, headers), w1) \<Rightarrow>
                           submit_job e c1 t signed_url (Some headers) additional_models w1)
                    else
                      submit_job e c1 t (JStr video_path) None additional_models w)))"

section \<open>\<^verbatim>\<open>InferenceModel.poll_for_video_results\<close>\<close>

text \<open>\<^verbatim>\<open>"..." + v\<close>: a value that is not a string raises \<^verbatim>\<open>TypeError\<close>.\<close>

fun concat_str :: "string \<Rightarrow> json \<Rightarrow> error + string" where
  "concat_str s (JStr t) = Inr (s @ t)"
| "concat_str s _ = Inl TypeError"

text \<open>\<^verbatim>\<open>self.job_id\<close>: \<^verbatim>\<open>AttributeError\<close> when \<^verbatim>\<open>predict_video\<close> never stored one.\<close>

definition self_job_id :: "client \<Rightarrow> error + json" where
  "self_job_id c = (case job_id c of None \<Rightarrow> Inl (AttributeError ''job_id'') | Some j \<Rightarrow> Inr j)"

definition json_headers :: "(string \<times> string) list" where
  "json_headers = [(''Content-Type'', ''application/json'')]"

text \<open>The status request for a job id \<open>j\<close> under the key of \<open>c\<close>.\<close>

definition status_request :: "env \<Rightarrow> client \<Rightarrow> string \<Rightarrow> request" where
  "status_request e c j =
     \<lparr> req_method = ''GET'',
       req_url = Joined (API_URL e) (''/videoinfer/?api_key='' @ api_key c @ ''&job_id='' @ j),
       req_headers = Some json_headers,
       req_body = NoBody \<rparr>"

definition results_request :: "json \<Rightarrow> request" where
  "results_request output_signed_url =
     \<lparr> req_method = ''GET'', req_url = Given output_signed_url,
       req_headers = Some json_headers, req_body = NoBody \<rparr>"

text \<open>The local \<open>job_id\<close> is bound as lines 271-272 bind it; the URL of line 275 is built
  from \<^verbatim>\<open>self.job_id\<close>.\<close>

definition poll_for_video_results :: "env \<Rightarrow> client \<Rightarrow> string option \<Rightarrow> world
    \<Rightarrow> (error + json) \<times> world" where
  "poll_for_video_results e c job_id_arg w =
     (case (case job_id_arg of None \<Rightarrow> self_job_id c | Some j \<Rightarrow> Inr (JStr j)) of
        Inl err \<Rightarrow> (Inl err, w)
      | Inr job_id_local \<Rightarrow>
          (case self_job_id c of
             Inl err \<Rightarrow> (Inl err, w)
           | Inr cached \<Rightarrow>
               (case concat_str (''/videoinfer/?api_key='' @ api_key c @ ''&job_id='') cached of
                  Inl err \<Rightarrow> (Inl err, w)
                | Inr rel \<Rightarrow>
                    (case call e w \<lparr> req_method = ''GET'', req_url = Joined (API_URL e) rel,
                                     req_headers = Some json_headers, req_body = NoBody \<rparr> of
                       (Raises msg, w1) \<Rightarrow> (Inl (RequestException msg), w1)
                     | (Responds r, w1) \<Rightarrow>
                         (case json_body r of
                            None \<Rightarrow> (Inl JSONDecodeError, w1)
                          | Some data \<Rightarrow>
                              (case get data ''status'' of
                                 Inl err \<Rightarrow> (Inl err, w1)
                               | Inr status \<Rightarrow>
                                   if ne_zero status then (Inr (JObj []), w1)
                                   else
                                     (case subscript data ''output_signed_url'' of
                                        Inl err \<Rightarrow> (Inl err, w1)
                                      | Inr output_signed_url \<Rightarrow>
                                          (case call e w1 (results_request output_signed_url) of
                                             (Raises msg, w2) \<Rightarrow> (Inl (RequestException msg), w2)
                                           | (Responds r2, w2) \<Rightarrow>
                                               (case json_body r2 of
                                                  None \<Rightarrow> (Inl JSONDecodeError, w2)
                                                | Some inference_data \<Rightarrow>
                                                    (Inr inference_data, w2))))))))))"

section \<open>\<^verbatim>\<open>InferenceModel.poll_until_video_results\<close>\<close>

definition progress_message :: "nat \<Rightarrow> string" where
  "progress_message attempts =
     ''('' @ str (attempts * 60) @ ''s): Checking for inference results''"

text \<open>The \<^verbatim>\<open>while True\<close> loop with its counter. It may run forever: \<open>None\<close> is the loop
  that never returns.\<close>

partial_function (option) poll_loop :: "env \<Rightarrow> client \<Rightarrow> nat \<Rightarrow> world
    \<Rightarrow> ((error + json) \<times> world) option" where
  "poll_loop e c attempts w =
     (case poll_for_video_results e c None (w @ [Print (progress_message attempts)]) of
        (Inl err, w1) \<Rightarrow> Some (Inl err, w1)
      | (Inr response, w1) \<Rightarrow>
          let w2 = w1 @ [Sleep 60] in
          if response \<noteq> JObj [] then Some (Inr response, w2)
          else poll_loop e c (attempts + 1) w2)"

definition poll_until_video_results :: "env \<Rightarrow> client \<Rightarrow> string option \<Rightarrow> world
    \<Rightarrow> ((error + json) \<times> world) option" where
  "poll_until_video_results e c job_id_arg w =
     (case (case job_id_arg of None \<Rightarrow> self_job_id c | Some j \<Rightarrow> Inr (JStr j)) of
        Inl err \<Rightarrow> Some (Inl err, w)
      | Inr job_id_local \<Rightarrow> poll_loop e c 0 w)"

section \<open>Requests and traces the statements speak about\<close>

text \<open>The three requests of a video submission, as \<^verbatim>\<open>predict_video\<close> builds them for a
  local file: the request for a signed upload URL, the upload, and the job submission. The
  job submission carries the headers bound last in the upload branch.\<close>

definition signed_url_request :: "env \<Rightarrow> client \<Rightarrow> string \<Rightarrow> request" where
  "signed_url_request e c video_path =
     \<lparr> req_method = ''POST'',
       req_url = Joined (API_URL e) (''/video_upload_signed_url?api_key='' @ api_key c),
       req_headers = Some [(''Content-Type'', ''application/json'')],
       req_body = JsonText (JObj [(''file_name'', JStr video_path)]) \<rparr>"

definition put_request :: "json \<Rightarrow> bytes \<Rightarrow> request" where
  "put_request signed_url video_data =
     \<lparr> req_method = ''PUT'', req_url = Given signed_url,
       req_headers = Some [(''Content-Type'', ''application/octet-stream'')],
       req_body = Raw video_data \<rparr>"

definition primary_descriptor :: "client \<Rightarrow> string \<Rightarrow> json" where
  "primary_descriptor c inference_type =
     JObj [(''model_id'', JStr (dataset_id c)),
           (''model_version'', JStr (version c)),
           (''inference_type'', JStr inference_type)]"

definition job_request :: "env \<Rightarrow> client \<Rightarrow> string \<Rightarrow> json \<Rightarrow> string list \<Rightarrow> request" where
  "job_request e c inference_type signed_url additional_models =
     \<lparr> req_method = ''POST'',
       req_url = Joined (API_URL e) (''/videoinfer/?api_key='' @ api_key c),
       req_headers = Some [(''Content-Type'', ''application/octet-stream'')],
       req_body = JsonText (JObj
         [(''input_url'', signed_url),
          (''infer_fps'', JInt 5),
          (''models'', JList (primary_descriptor c inference_type
              # map (\<lambda>m. the (map_of SUPPORTED_ADDITIONAL_MODELS m)) additional_models))]) \<rparr>"

text \<open>The arguments of the calls to \<^verbatim>\<open>time.sleep\<close> and to \<^verbatim>\<open>print\<close> in a trace, in order.\<close>

fun sleeps :: "world \<Rightarrow> nat list" where
  "sleeps [] = []"
| "sleeps (Sleep n # w) = n # sleeps w"
| "sleeps (ev # w) = sleeps w"

fun prints :: "world \<Rightarrow> string list" where
  "prints [] = []"
| "prints (Print s # w) = s # prints w"
| "prints (ev # w) = prints w"

text \<open>One pass of the loop of \<^verbatim>\<open>poll_until_video_results\<close> up to the single poll: the
  progress message, then \<^verbatim>\<open>self.poll_for_video_results()\<close>. \<open>after_rounds e c a n w\<close> is the
  trace after \<open>n\<close> passes that started from \<open>w\<close> with the counter at \<open>a\<close>, each followed by
  its \<^verbatim>\<open>time.sleep(60)\<close>.\<close>

definition round_result :: "env \<Rightarrow> client \<Rightarrow> nat \<Rightarrow> world \<Rightarrow> (error + json) \<times> world" where
  "round_result e c attempts w =
     poll_for_video_results e c None (w @ [Print (progress_message attempts)])"

fun after_rounds :: "env \<Rightarrow> client \<Rightarrow> nat \<Rightarrow> nat \<Rightarrow> world \<Rightarrow> world" where
  "after_rounds e c attempts 0 w = w"
| "after_rounds e c attempts (Suc n) w =
     after_rounds e c (Suc attempts) n (snd (round_result e c attempts w) @ [Sleep 60])"

text \<open>\<^verbatim>\<open>int(s)\<close> on a string of decimal digits, to say what \<open>str\<close> writes.\<close>

definition digit_value :: "char \<Rightarrow> nat" where
  "digit_value ch = of_char ch - 48"

definition parse_nat :: "string \<Rightarrow> nat" where
  "parse_nat s = foldl (\<lambda>acc ch. 10 * acc + digit_value ch) 0 s"

section \<open>Concrete scenarios\<close>

text \<open>An environment for the scenarios below: a base URL, a path check that accepts every
  non-empty string, the scheme of a string that starts with \<^verbatim>\<open>http://\<close> or \<^verbatim>\<open>https://\<close>, one
  image \<^verbatim>\<open>cat.jpg\<close> of 200 by 150 pixels, one video file \<^verbatim>\<open>v.mp4\<close>, and a remote side given
  as a function.\<close>

definition stub_env :: "(world \<Rightarrow> request \<Rightarrow> outcome) \<Rightarrow> env" where
  "stub_env server =
     \<lparr> API_URL = ''https://api.roboflow.com'',
       validate_image_path = (\<lambda>p. p \<noteq> []),
       urlparse_scheme = (\<lambda>u. if startswith u ''https://'' then ''https''
                               else if startswith u ''http://'' then ''http'' else []),
       image_open = (\<lambda>p. if p = ''cat.jpg'' then Some \<lparr> size' = (200, 150), pixels = [7, 7] \<rparr>
                          else None),
       save_jpeg = (\<lambda>img q. Some [255, 216, q]),
       boundary = ''b0'',
       read_file = (\<lambda>p. if p = ''v.mp4'' then Inr [0, 1, 2] else Inl ''No such file''),
       http = server \<rparr>"

definition reply :: "json \<Rightarrow> outcome" where
  "reply j = Responds \<lparr> status_code = 200, json_body = Some j \<rparr>"

text \<open>An \<^verbatim>\<open>ObjectDetectionModel\<close> for \<^verbatim>\<open>ws/ds/3\<close> as the subclass leaves it after construction,
  and the same instance after \<^verbatim>\<open>predict_video\<close> cached the job id \<^verbatim>\<open>abc123\<close>.\<close>

definition detector :: client where
  "detector = \<lparr> cls = ''ObjectDetectionModel'', api_key = ''KEY'', id' = ''ws/ds/3'',
       dataset_id = ''ds'', version = ''3'', colors = [],
       api_url = Some ''https://detect.roboflow.com/ds/3'', type' = None, job_id = None \<rparr>"

definition poller :: client where
  "poller = detector\<lparr> type' := Some ''object-detection'', job_id := Some (JStr ''abc123'') \<rparr>"

text \<open>Remote sides: one that answers every status request with the same body and serves
  the results at \<^verbatim>\<open>http://x\<close>; one that reports status 1 until the client has slept twice and
  status 0 with the results URL from then on; one that serves a video submission.\<close>

definition status_server :: "json \<Rightarrow> world \<Rightarrow> request \<Rightarrow> outcome" where
  "status_server status_reply w r =
     (if req_url r = Given (JStr ''http://x'') then reply (JObj [(''frame_0'', JObj [])])
      else reply status_reply)"

definition scripted :: "world \<Rightarrow> request \<Rightarrow> outcome" where
  "scripted w r =
     (if req_url r = Given (JStr ''http://x'') then reply (JObj [(''frame_0'', JObj [])])
      else if length (sleeps w) < 2 then reply (JObj [(''status'', JInt 1)])
      else reply (JObj [(''status'', JInt 0), (''output_signed_url'', JStr ''http://x'')]))"

definition upload_server :: "world \<Rightarrow> request \<Rightarrow> outcome" where
  "upload_server w r =
     (if req_method r = ''PUT'' then Responds \<lparr> status_code = 200, json_body = None \<rparr>
      else if req_url r = Joined ''https://api.roboflow.com'' ''/video_upload_signed_url?api_key=KEY''
      then reply (JObj [(''signed_url'', JStr ''https://storage.example/put-here'')])
      else reply (JObj [(''job_id'', JStr ''abc123'')]))"

section \<open>Auxiliary facts\<close>

subsection \<open>Strings and dicts\<close>

lemma rsplit_nonempty: "rsplit s sep \<noteq> []"
  by (induction s) (auto split: list.splits)

lemma length_rsplit: "length (rsplit s sep) = Suc (count_list s sep)"
  by (induction s) (auto split: list.splits simp: rsplit_nonempty)

lemma digit_value_digit: "d < 10 \<Longrightarrow> digit_value (digit d) = d"
proof -
  assume "d < 10"
  then have "d \<in> {0, 1, 2, 3, 4, 5, 6, 7, 8, 9}" by auto
  then show ?thesis by (auto simp: digit_value_def digit_def)
qed

lemma parse_nat_str: "parse_nat (str n) = n"
proof (induction n rule: str.induct)
  case (1 n)
  show ?case
  proof (cases "n < 10")
    case True
    then show ?thesis
      by (subst str.simps) (simp add: parse_nat_def digit_value_digit)
  next
    case False
    then have "parse_nat (str (n div 10)) = n div 10" using 1 by simp
    then show ?thesis
      using False
      by (subst str.simps) (simp add: parse_nat_def digit_value_digit)
  qed
qed

lemma str_digits: "set (str n) \<subseteq> set ''0123456789''"
proof (induction n rule: str.induct)
  case (1 n)
  have d: "\<And>k. k < 10 \<Longrightarrow> digit k \<in> set ''0123456789''"
    unfolding digit_def by (rule nth_mem) simp
  show ?case
  proof (cases "n < 10")
    case True
    then show ?thesis using d [of n] by (subst str.simps) simp
  next
    case False
    then show ?thesis using 1 d [of "n mod 10"] by (subst str.simps) simp
  qed
qed

lemma map_of_dict_set: "map_of (dict_set d k v) = (map_of d)(k \<mapsto> v)"
  by (induction d k v rule: dict_set.induct) auto

lemma map_of_dict_update:
  "distinct (map fst kw) \<Longrightarrow>
   map_of (dict_update d kw) k = (case map_of kw k of Some v \<Rightarrow> Some v | None \<Rightarrow> map_of d k)"
proof (induction kw arbitrary: d)
  case Nil
  show ?case by simp
next
  case (Cons p kw)
  obtain a b where p: "p = (a, b)" by (cases p)
  from Cons.prems p have d: "distinct (map fst kw)" and a: "a \<notin> fst ` set kw" by auto
  from a have none: "map_of kw a = None" by (simp add: map_of_eq_None_iff)
  show ?case
    using Cons.IH [OF d, of "dict_set d a b"] none
    by (simp add: p map_of_dict_set split: option.split)
qed

subsection \<open>The vocabulary of additional models\<close>

lemma supported_keys:
  "(map_of SUPPORTED_ADDITIONAL_MODELS m = None) = (m \<noteq> ''clip'' \<and> m \<noteq> ''gaze'')"
  by (auto simp: SUPPORTED_ADDITIONAL_MODELS_def)

lemma first_unsupported_None:
  "(first_unsupported ms = None) = (\<forall>m \<in> set ms. m = ''clip'' \<or> m = ''gaze'')"
  by (auto simp: first_unsupported_def find_None_iff supported_keys)

lemma first_unsupported_Some:
  "first_unsupported ms = Some m \<Longrightarrow> m \<in> set ms \<and> m \<noteq> ''clip'' \<and> m \<noteq> ''gaze''"
  by (auto simp: first_unsupported_def find_Some_iff supported_keys)

lemma append_models_supported:
  "\<forall>m \<in> set ms. m = ''clip'' \<or> m = ''gaze'' \<Longrightarrow>
   append_models acc ms = Inr (acc @ map (\<lambda>m. the (map_of SUPPORTED_ADDITIONAL_MODELS m)) ms)"
proof (induction ms arbitrary: acc)
  case Nil
  show ?case by simp
next
  case (Cons m ms)
  from Cons.prems have "map_of SUPPORTED_ADDITIONAL_MODELS m \<noteq> None"
    by (simp add: supported_keys)
  then obtain d where d: "map_of SUPPORTED_ADDITIONAL_MODELS m = Some d" by blast
  from Cons.prems have rest: "\<forall>m \<in> set ms. m = ''clip'' \<or> m = ''gaze''" by simp
  show ?case using Cons.IH [OF rest, of "acc @ [d]"] d by simp
qed

lemma submit_job_unbound:
  "submit_job e c t u None ms w = (r, c', w') \<Longrightarrow> isl r \<and> c' = c \<and> w' = w"
  by (auto simp: submit_job_def Let_def split: sum.splits)

subsection \<open>The polling loop\<close>

lemma sleeps_append [simp]: "sleeps (u @ v) = sleeps u @ sleeps v"
  by (induction u rule: sleeps.induct) simp_all

lemma prints_append [simp]: "prints (u @ v) = prints u @ prints v"
  by (induction u rule: prints.induct) simp_all

lemma poll_sleeps [simp]: "sleeps (snd (poll_for_video_results e c a w)) = sleeps w"
  by (simp add: poll_for_video_results_def call_def results_request_def
      split: option.split sum.split outcome.split)

lemma poll_prints [simp]: "prints (snd (poll_for_video_results e c a w)) = prints w"
  by (simp add: poll_for_video_results_def call_def results_request_def
      split: option.split sum.split outcome.split)

lemma poll_loop_again:
  assumes "round_result e c attempts w = (Inr (JObj []), w1)"
  shows "poll_loop e c attempts w = poll_loop e c (Suc attempts) (w1 @ [Sleep 60])"
  using assms by (subst poll_loop.simps) (simp add: round_result_def)

lemma poll_loop_done:
  assumes "round_result e c attempts w = (Inr p, w1)" and "p \<noteq> JObj []"
  shows "poll_loop e c attempts w = Some (Inr p, w1 @ [Sleep 60])"
  using assms by (subst poll_loop.simps) (simp add: round_result_def)

lemma poll_loop_rounds:
  assumes "\<forall>k < n. fst (round_result e c (a + k) (after_rounds e c a k w)) = Inr (JObj [])"
    and "fst (round_result e c (a + n) (after_rounds e c a n w)) = Inr p"
    and "p \<noteq> JObj []"
  shows "poll_loop e c a w =
           Some (Inr p, snd (round_result e c (a + n) (after_rounds e c a n w)) @ [Sleep 60])"
  using assms
proof (induction n arbitrary: a w)
  case 0
  then show ?case
    using poll_loop_done [of e c a w p "snd (round_result e c a w)"]
    by (simp add: prod_eq_iff)
next
  case (Suc n)
  let ?w1 = "snd (round_result e c a w)"
  from Suc.prems(1) have first: "fst (round_result e c a w) = Inr (JObj [])"
    by (metis add.right_neutral after_rounds.simps(1) zero_less_Suc)
  then have step: "poll_loop e c a w = poll_loop e c (Suc a) (?w1 @ [Sleep 60])"
    using poll_loop_again [of e c a w ?w1] by (simp add: prod_eq_iff)
  have rest: "\<forall>k < n. fst (round_result e c (Suc a + k) (after_rounds e c (Suc a) k (?w1 @ [Sleep 60])))
       = Inr (JObj [])"
  proof (intro allI impI)
    fix k assume "k < n"
    then have "Suc k < Suc n" by simp
    with Suc.prems(1) have "fst (round_result e c (a + Suc k) (after_rounds e c a (Suc k) w)) = Inr (JObj [])"
      by blast
    then show "fst (round_result e c (Suc a + k) (after_rounds e c (Suc a) k (?w1 @ [Sleep 60]))) = Inr (JObj [])"
      by simp
  qed
  have last: "fst (round_result e c (Suc a + n) (after_rounds e c (Suc a) n (?w1 @ [Sleep 60]))) = Inr p"
    using Suc.prems(2) by simp
  show ?case
    using Suc.IH [OF rest last Suc.prems(3)] step by simp
qed

lemma sleeps_after_rounds: "sleeps (after_rounds e c a n w) = sleeps w @ replicate n 60"
  by (induction n arbitrary: a w) (simp_all add: round_result_def replicate_append_same)

lemma prints_after_rounds:
  "prints (after_rounds e c a n w) = prints w @ map progress_message [a ..< a + n]"
proof (induction n arbitrary: a w)
  case 0
  show ?case by simp
next
  case (Suc n)
  have "[a ..< a + Suc n] = a # [Suc a ..< Suc a + n]"
    by (simp add: upt_conv_Cons)
  then show ?case using Suc.IH [of "Suc a"] by (simp add: round_result_def)
qed

lemma round_ok_job_id:
  "fst (round_result e c a w) = Inr p \<Longrightarrow> \<exists>j. self_job_id c = Inr j"
  by (cases "self_job_id c") (simp_all add: round_result_def poll_for_video_results_def)

lemma msgs: "progress_message 0 = ''(0s): Checking for inference results''"
  "progress_message 1 = ''(60s): Checking for inference results''"
  "progress_message 2 = ''(120s): Checking for inference results''"
  "progress_message (Suc 0) = ''(60s): Checking for inference results''"
  "progress_message (Suc (Suc 0)) = ''(120s): Checking for inference results''"
  by (simp_all add: progress_message_def str.simps digit_def)

lemmas fixture_defs = stub_env_def reply_def detector_def poller_def status_server_def
  startswith_def

subsection \<open>A video submission from a local file\<close>

text \<open>For a local file, valid arguments and a remote side that answers each of the three
  requests, \<^verbatim>\<open>predict_video\<close> issues exactly those requests, the last with the body
  \<^verbatim>\<open>{"input_url": signed_url, "infer_fps": 5, "models": [primary, additional ...]}\<close> whatever
  \<open>fps\<close> is, caches the job id and returns it with the signed URL.\<close>

lemma predict_video_local_submits:
  assumes "fps \<le> 5"
    and ms: "\<forall>m \<in> set additional_models. m = ''clip'' \<or> m = ''gaze''"
    and "prediction_type = ''batch-video''"
    and "resolve_type (cls c) = Some t"
    and "\<not> startswith video_path ''http://''" and "\<not> startswith video_path ''https://''"
    and "http e w (signed_url_request e c video_path) = Responds r1"
    and "json_body r1 = Some (JObj d1)" and "map_of d1 ''signed_url'' = Some signed_url"
    and "read_file e video_path = Inr video_data"
    and "http e (w @ [Http (signed_url_request e c video_path)])
           (put_request signed_url video_data) = Responds r2"
    and "http e (w @ [Http (signed_url_request e c video_path),
                      Http (put_request signed_url video_data)])
           (job_request e c t signed_url additional_models) = Responds r3"
    and "json_body r3 = Some (JObj d3)" and "map_of d3 ''job_id'' = Some job"
  shows "predict_video e c video_path fps additional_models prediction_type w =
           (Inr (job, signed_url),
            c\<lparr> type' := Some t, job_id := Some job \<rparr>,
            w @ [Http (signed_url_request e c video_path),
                 Http (put_request signed_url video_data),
                 Http (job_request e c t signed_url additional_models)])"
proof -
  from ms have none: "first_unsupported additional_models = None"
    by (simp add: first_unsupported_None)
  have fpsok: "\<not> fps > 5" using assms(1) by simp
  have up: "upload_video e (c\<lparr> type' := Some t \<rparr>) video_path w =
      (Inr (signed_url, [(''Content-Type'', ''application/octet-stream'')]),
       w @ [Http (signed_url_request e c video_path), Http (put_request signed_url video_data)])"
    using assms(7-11)
    by (simp add: upload_video_def call_def Let_def signed_url_request_def put_request_def)
  have sub: "submit_job e (c\<lparr> type' := Some t \<rparr>) t signed_url
       (Some [(''Content-Type'', ''application/octet-stream'')]) additional_models
       (w @ [Http (signed_url_request e c video_path), Http (put_request signed_url video_data)]) =
      (Inr (job, signed_url), c\<lparr> type' := Some t, job_id := Some job \<rparr>,
       w @ [Http (signed_url_request e c video_path), Http (put_request signed_url video_data),
            Http (job_request e c t signed_url additional_models)])"
    using assms(12-14)
    by (simp add: submit_job_def append_models_supported [OF ms] call_def Let_def
        job_request_def job_payload_def primary_descriptor_def)
  show ?thesis
    using fpsok none assms(3-6) up sub
    by (simp add: predict_video_def SUPPORTED_ROBOFLOW_MODELS_def Let_def)
qed

section \<open>The claims\<close>

subsection \<open>Single poll\<close>

text \<open>C1. \<^verbatim>\<open>poll_for_video_results\<close> reads the status with \<^verbatim>\<open>data.get("status") != 0\<close>. With a
  cached job id and a status response that is a JSON object: when the status is absent or
  not equal to 0 (so for \<^verbatim>\<open>{"status": 1}\<close>) the result is the empty dict and the status
  request is the only request; when the status equals 0 and \<^verbatim>\<open>output_signed_url\<close> is present,
  a second GET goes to that URL and its JSON body is returned as it is. The claim has the
  two status values the other way round.\<close>

theorem poll_status_semantics:
  assumes "job_id c = Some (JStr cached)"
    and "http e w (status_request e c cached) = Responds r"
    and "json_body r = Some (JObj d)"
  shows "((case map_of d ''status'' of None \<Rightarrow> True | Some s \<Rightarrow> ne_zero s) \<longrightarrow>
            poll_for_video_results e c job_id_arg w =
              (Inr (JObj []), w @ [Http (status_request e c cached)]))
       \<and> ((\<exists>s. map_of d ''status'' = Some s \<and> \<not> ne_zero s)
            \<and> map_of d ''output_signed_url'' = Some u
            \<and> http e (w @ [Http (status_request e c cached)]) (results_request u) = Responds r2
            \<and> json_body r2 = Some inference_data \<longrightarrow>
            poll_for_video_results e c job_id_arg w =
              (Inr inference_data,
               w @ [Http (status_request e c cached), Http (results_request u)]))"
  using assms
  by (cases job_id_arg)
     (auto simp: poll_for_video_results_def self_job_id_def status_request_def
        call_def Let_def split: option.splits)

text \<open>The theorem at two status responses: \<^verbatim>\<open>{"status": 1}\<close>, and
  \<^verbatim>\<open>{"status": 0, "output_signed_url": "http://x"}\<close> with \<^verbatim>\<open>{"frame_0": {}}\<close> behind the URL.\<close>

theorem poll_status_semantics_witness:
  "poll_for_video_results (stub_env (status_server (JObj [(''status'', JInt 1)]))) poller None [] =
     (Inr (JObj []),
      [Http (status_request (stub_env (status_server (JObj [(''status'', JInt 1)]))) poller ''abc123'')])
   \<and> poll_for_video_results
       (stub_env (status_server (JObj [(''status'', JInt 0),
                                       (''output_signed_url'', JStr ''http://x'')]))) poller None [] =
     (Inr (JObj [(''frame_0'', JObj [])]),
      [Http (status_request
          (stub_env (status_server (JObj [(''status'', JInt 0),
                                          (''output_signed_url'', JStr ''http://x'')]))) poller
          ''abc123''),
       Http (results_request (JStr ''http://x''))])"
proof -
  let ?d1 = "[(''status'', JInt 1)]"
  let ?d0 = "[(''status'', JInt 0), (''output_signed_url'', JStr ''http://x'')]"
  let ?e1 = "stub_env (status_server (JObj ?d1))"
  let ?e0 = "stub_env (status_server (JObj ?d0))"
  let ?ok = "\<lambda>j. \<lparr> status_code = 200, json_body = Some j \<rparr>"
  have j: "job_id poller = Some (JStr ''abc123'')" by (simp add: poller_def)
  have h1: "http ?e1 [] (status_request ?e1 poller ''abc123'') = Responds (?ok (JObj ?d1))"
    by (simp add: status_request_def fixture_defs)
  have h0: "http ?e0 [] (status_request ?e0 poller ''abc123'') = Responds (?ok (JObj ?d0))"
    by (simp add: status_request_def fixture_defs)
  have g0: "http ?e0 ([] @ [Http (status_request ?e0 poller ''abc123'')])
              (results_request (JStr ''http://x'')) = Responds (?ok (JObj [(''frame_0'', JObj [])]))"
    by (simp add: results_request_def fixture_defs)
  have b: "\<And>j. json_body (?ok j) = Some j" by simp
  note A = poll_status_semantics [OF j h1 b, where job_id_arg = None, THEN conjunct1]
  note B = poll_status_semantics [OF j h0 b, where u = "JStr ''http://x''"
      and ?r2.0 = "?ok (JObj [(''frame_0'', JObj [])])"
      and inference_data = "JObj [(''frame_0'', JObj [])]" and job_id_arg = None, THEN conjunct2]
  have "poll_for_video_results ?e1 poller None [] =
     (Inr (JObj []), [] @ [Http (status_request ?e1 poller ''abc123'')])"
    using A by simp
  moreover have "poll_for_video_results ?e0 poller None [] =
     (Inr (JObj [(''frame_0'', JObj [])]),
      [] @ [Http (status_request ?e0 poller ''abc123''), Http (results_request (JStr ''http://x''))])"
    using B g0 by simp
  ultimately show ?thesis by simp
qed

text \<open>The two status responses of the spec's scenario. For \<^verbatim>\<open>{"status": 0}\<close> the code does
  not return \<^verbatim>\<open>{}\<close>: it goes on to \<^verbatim>\<open>data["output_signed_url"]\<close>, which raises \<^verbatim>\<open>KeyError\<close>. For
  \<^verbatim>\<open>{"status": 1, "output_signed_url": "http://x"}\<close> it returns \<^verbatim>\<open>{}\<close> and never fetches
  \<^verbatim>\<open>http://x\<close>.\<close>

theorem poll_status_zero_is_ready:
  "poll_for_video_results (stub_env (status_server (JObj [(''status'', JInt 0)]))) poller
       (Some ''abc123'') [] =
     (Inl (KeyError ''output_signed_url''),
      [Http (status_request (stub_env (status_server (JObj [(''status'', JInt 0)]))) poller ''abc123'')])
   \<and> poll_for_video_results
       (stub_env (status_server (JObj [(''status'', JInt 1),
                                       (''output_signed_url'', JStr ''http://x'')]))) poller
       (Some ''abc123'') [] =
     (Inr (JObj []),
      [Http (status_request
          (stub_env (status_server (JObj [(''status'', JInt 1),
                                          (''output_signed_url'', JStr ''http://x'')]))) poller
          ''abc123'')])"
  by (simp add: poll_for_video_results_def self_job_id_def call_def status_request_def
      json_headers_def results_request_def fixture_defs)

text \<open>C2. The claim: an explicit \<^verbatim>\<open>job_id\<close> argument decides which job the status request
  targets. The code binds the local \<^verbatim>\<open>job_id\<close> and then builds the URL from
  \<^verbatim>\<open>self.job_id\<close>, so the argument has no effect at all: a call with an explicit job id
  does exactly what the call without one does.\<close>

theorem poll_ignores_job_id_argument:
  "poll_for_video_results e c (Some j) w = poll_for_video_results e c None w"
  by (cases "job_id c") (simp_all add: poll_for_video_results_def self_job_id_def)

text \<open>With \<^verbatim>\<open>abc123\<close> cached, a poll for \<^verbatim>\<open>other-job\<close> asks for \<^verbatim>\<open>abc123\<close>; with nothing
  cached, the same call raises \<^verbatim>\<open>AttributeError\<close>.\<close>

theorem poll_ignores_job_id_argument_witness:
  "poll_for_video_results (stub_env (status_server (JObj [(''status'', JInt 1)]))) poller
       (Some ''other-job'') [] =
   poll_for_video_results (stub_env (status_server (JObj [(''status'', JInt 1)]))) poller None []
   \<and> snd (poll_for_video_results (stub_env (status_server (JObj [(''status'', JInt 1)]))) poller
       (Some ''other-job'') []) =
     [Http \<lparr> req_method = ''GET'',
              req_url = Joined ''https://api.roboflow.com''
                          ''/videoinfer/?api_key=KEY&job_id=abc123'',
              req_headers = Some [(''Content-Type'', ''application/json'')],
              req_body = NoBody \<rparr>]
   \<and> poll_for_video_results (stub_env (status_server (JObj [(''status'', JInt 1)]))) detector
       (Some ''other-job'') [] = (Inl (AttributeError ''job_id''), [])"
  using poll_ignores_job_id_argument
    [of "stub_env (status_server (JObj [(''status'', JInt 1)]))" poller "''other-job''" "[]"]
  by (simp add: poll_for_video_results_def self_job_id_def call_def json_headers_def fixture_defs)

text \<open>Whatever the argument, the first request of a poll is the status request for the
  cached job id.\<close>

theorem poll_status_request_uses_cached_id:
  assumes "job_id c = Some (JStr cached)"
  shows "\<exists>rest. snd (poll_for_video_results e c job_id_arg w) =
            w @ Http (status_request e c cached) # rest"
  using assms
  by (cases job_id_arg)
     (auto simp: poll_for_video_results_def self_job_id_def status_request_def results_request_def
        call_def Let_def split: outcome.split option.split sum.split)

subsection \<open>Video submission\<close>

text \<open>C3. The claim: for an http(s) video URL and valid arguments, \<^verbatim>\<open>predict_video\<close> skips
  the upload, submits the job with the URL as source and returns the job id with the URL.
  The code skips the upload, and with it the only assignments to \<^verbatim>\<open>headers\<close>: the
  job-submission call \<^verbatim>\<open>requests.request("POST", url, headers=headers, ...)\<close> then raises
  \<^verbatim>\<open>UnboundLocalError\<close> before any request is made. Nothing is submitted or returned.\<close>

theorem predict_video_url_unbound_headers:
  assumes "fps \<le> 5"
    and "\<forall>m \<in> set additional_models. m = ''clip'' \<or> m = ''gaze''"
    and "prediction_type = ''batch-video''"
    and "resolve_type (cls c) = Some t"
    and "startswith video_path ''http://'' \<or> startswith video_path ''https://''"
  shows "predict_video e c video_path fps additional_models prediction_type w =
           (Inl (UnboundLocalError ''headers''), c\<lparr> type' := Some t \<rparr>, w)"
proof -
  from assms(2) have none: "first_unsupported additional_models = None"
    by (simp add: first_unsupported_None)
  have fpsok: "\<not> fps > 5" using assms(1) by simp
  have sub: "submit_job e (c\<lparr> type' := Some t \<rparr>) t (JStr video_path) None additional_models w =
           (Inl (UnboundLocalError ''headers''), c\<lparr> type' := Some t \<rparr>, w)"
    by (simp add: submit_job_def append_models_supported [OF assms(2)] Let_def)
  show ?thesis
    using fpsok none assms(3,4,5) sub
    by (simp add: predict_video_def SUPPORTED_ROBOFLOW_MODELS_def Let_def)
qed

text \<open>The theorem at \<^verbatim>\<open>predict_video("https://example.com/v.mp4")\<close> on an
  \<^verbatim>\<open>ObjectDetectionModel\<close>.\<close>

theorem predict_video_url_unbound_headers_witness:
  "predict_video (stub_env upload_server) detector ''https://example.com/v.mp4'' 5 []
       ''batch-video'' [] =
     (Inl (UnboundLocalError ''headers''), detector\<lparr> type' := Some ''object-detection'' \<rparr>, [])"
proof -
  have t: "resolve_type (cls detector) = Some ''object-detection''"
    by (simp add: resolve_type_def detector_def)
  have u: "startswith ''https://example.com/v.mp4'' ''http://''
         \<or> startswith ''https://example.com/v.mp4'' ''https://''"
    by (simp add: startswith_def)
  have m: "\<forall>m \<in> set ([]::string list). m = ''clip'' \<or> m = ''gaze''" by simp
  show ?thesis
    using predict_video_url_unbound_headers [OF _ m refl t u, of 5 "stub_env upload_server" "[]"]
    by simp
qed

subsection \<open>Synchronous predict\<close>

text \<open>C4. \<^verbatim>\<open>predict\<close> stores \<^verbatim>\<open>api_key\<close> and then applies \<^verbatim>\<open>params.update(**kwargs)\<close>. When
  the request builder succeeds and the instance has its \<^verbatim>\<open>api_url\<close>, one POST is issued whose
  query parameters hold, for every key, the caller's keyword argument if there is one,
  otherwise the client's credential for \<^verbatim>\<open>api_key\<close> and the builder's value for any other
  key. So the caller's arguments win on every collision, \<^verbatim>\<open>api_key\<close> included; the
  credential is sent exactly when the caller passes no \<^verbatim>\<open>api_key\<close>.\<close>

theorem predict_query_last_writer:
  assumes "get_image_params e image_path = Inr (params0, request_kwargs, image_dims)"
    and "api_url c = Some base"
    and "distinct (map fst kwargs)"
  shows "snd (predict e c image_path prediction_type kwargs w) =
           w @ [Http \<lparr> req_method = ''POST'',
                        req_url = Encoded base (predict_params c params0 kwargs),
                        req_headers = kw_headers request_kwargs,
                        req_body = kw_data request_kwargs \<rparr>]
         \<and> map_of (predict_params c params0 kwargs) k =
             (case map_of kwargs k of
                Some v \<Rightarrow> Some v
              | None \<Rightarrow> if k = ''api_key'' then Some (api_key c) else map_of params0 k)"
proof
  show "snd (predict e c image_path prediction_type kwargs w) =
           w @ [Http \<lparr> req_method = ''POST'',
                        req_url = Encoded base (predict_params c params0 kwargs),
                        req_headers = kw_headers request_kwargs,
                        req_body = kw_data request_kwargs \<rparr>]"
    using assms(1,2)
    by (simp add: predict_def call_def Let_def split: outcome.split option.split)
next
  show "map_of (predict_params c params0 kwargs) k =
             (case map_of kwargs k of
                Some v \<Rightarrow> Some v
              | None \<Rightarrow> if k = ''api_key'' then Some (api_key c) else map_of params0 k)"
    using assms(3)
    by (simp add: predict_params_def map_of_dict_update map_of_dict_set split: option.split)
qed

text \<open>The theorem at a hosted image with the keyword arguments \<^verbatim>\<open>image\<close> and
  \<^verbatim>\<open>confidence\<close>: the builder's \<^verbatim>\<open>image\<close> is overridden, the credential is sent.\<close>

theorem predict_query_last_writer_witness:
  "get_image_params (stub_env (\<lambda>w r. reply (JObj [(''predictions'', JList [])])))
       ''https://example.com/cat.jpg'' =
     Inr ([(''image'', ''https://example.com/cat.jpg'')],
          \<lparr> kw_data = NoBody, kw_headers = None \<rparr>,
          [(''width'', ''Undefined''), (''height'', ''Undefined'')])
   \<and> api_url detector = Some ''https://detect.roboflow.com/ds/3''
   \<and> distinct (map fst [(''image'', ''cat.jpg''), (''confidence'', ''40'')])
   \<and> snd (predict (stub_env (\<lambda>w r. reply (JObj [(''predictions'', JList [])]))) detector
          ''https://example.com/cat.jpg'' None [(''image'', ''cat.jpg''), (''confidence'', ''40'')] []) =
       [Http \<lparr> req_method = ''POST'',
                req_url = Encoded ''https://detect.roboflow.com/ds/3''
                            [(''image'', ''cat.jpg''), (''api_key'', ''KEY''), (''confidence'', ''40'')],
                req_headers = None, req_body = NoBody \<rparr>]
   \<and> map_of (predict_params detector [(''image'', ''https://example.com/cat.jpg'')]
               [(''image'', ''cat.jpg''), (''confidence'', ''40'')]) ''api_key'' = Some ''KEY''"
proof -
  let ?e = "stub_env (\<lambda>w r. reply (JObj [(''predictions'', JList [])]))"
  let ?kw = "[(''image'', ''cat.jpg''), (''confidence'', ''40'')]"
  have a: "get_image_params ?e ''https://example.com/cat.jpg'' =
     Inr ([(''image'', ''https://example.com/cat.jpg'')],
          \<lparr> kw_data = NoBody, kw_headers = None \<rparr>,
          [(''width'', ''Undefined''), (''height'', ''Undefined'')])"
    by (simp add: get_image_params_def stub_env_def startswith_def)
  have b: "api_url detector = Some ''https://detect.roboflow.com/ds/3''"
    by (simp add: detector_def)
  have d: "distinct (map fst ?kw)" by simp
  have p: "predict_params detector [(''image'', ''https://example.com/cat.jpg'')] ?kw =
      [(''image'', ''cat.jpg''), (''api_key'', ''KEY''), (''confidence'', ''40'')]"
    by (simp add: predict_params_def detector_def)
  from predict_query_last_writer [OF a b d, of None "[]" "''api_key''"] a b d p
  show ?thesis by simp
qed

text \<open>\<^verbatim>\<open>predict(url, api_key="OTHER")\<close> on a client configured with \<^verbatim>\<open>KEY\<close> sends
  \<^verbatim>\<open>api_key=OTHER\<close>.\<close>

theorem predict_api_key_overridden:
  "snd (predict (stub_env (\<lambda>w r. reply (JObj [(''predictions'', JList [])]))) detector
          ''https://example.com/cat.jpg'' None [(''api_key'', ''OTHER'')] []) =
     [Http \<lparr> req_method = ''POST'',
              req_url = Encoded ''https://detect.roboflow.com/ds/3''
                          [(''image'', ''https://example.com/cat.jpg''), (''api_key'', ''OTHER'')],
              req_headers = None, req_body = NoBody \<rparr>]
   \<and> api_key detector = ''KEY'' \<and> ''OTHER'' \<noteq> ''KEY''"
  by (simp add: predict_def predict_params_def get_image_params_def stub_env_def startswith_def
      call_def reply_def detector_def)

subsection \<open>Construction\<close>

text \<open>C5. \<^verbatim>\<open>__init__\<close> reads \<^verbatim>\<open>version_info[1]\<close> and \<^verbatim>\<open>version_info[2]\<close> and never looks at the
  length of the list. Construction succeeds if and only if the identifier splits on
  \<^verbatim>\<open>/\<close> into at least three segments; then \<^verbatim>\<open>dataset_id\<close> and \<^verbatim>\<open>version\<close> are the second and
  the third segment. With fewer than three segments it fails with \<^verbatim>\<open>IndexError\<close>.\<close>

theorem init_three_or_more:
  "(case init class_name key version_id colors_arg of
      Inl err \<Rightarrow> err = IndexError \<and> length (rsplit version_id CHR ''/'') < 3
    | Inr c \<Rightarrow> 3 \<le> length (rsplit version_id CHR ''/'')
        \<and> dataset_id c = rsplit version_id CHR ''/'' ! 1
        \<and> version c = rsplit version_id CHR ''/'' ! 2
        \<and> api_key c = key \<and> id' c = version_id)"
  by (simp add: init_def Let_def)

text \<open>The theorem at \<^verbatim>\<open>ws/ds/3\<close>.\<close>

theorem init_three_or_more_witness:
  "(case init ''ObjectDetectionModel'' ''key'' ''ws/ds/3'' None of
      Inl err \<Rightarrow> err = IndexError \<and> length (rsplit ''ws/ds/3'' CHR ''/'') < 3
    | Inr c \<Rightarrow> 3 \<le> length (rsplit ''ws/ds/3'' CHR ''/'')
        \<and> dataset_id c = rsplit ''ws/ds/3'' CHR ''/'' ! 1
        \<and> version c = rsplit ''ws/ds/3'' CHR ''/'' ! 2
        \<and> api_key c = ''key'' \<and> id' c = ''ws/ds/3'')
   \<and> dataset_id (projr (init ''ObjectDetectionModel'' ''key'' ''ws/ds/3'' None)) = ''ds''"
  using init_three_or_more [of "''ObjectDetectionModel''" "''key''" "''ws/ds/3''" None]
  by (simp add: init_def)

text \<open>An identifier of four segments is accepted; the fourth segment is dropped.\<close>

theorem init_four_segments:
  "rsplit ''ws/ds/3/extra'' CHR ''/'' = [''ws'', ''ds'', ''3'', ''extra'']
   \<and> init ''ObjectDetectionModel'' ''key'' ''ws/ds/3/extra'' None =
     Inr \<lparr> cls = ''ObjectDetectionModel'', api_key = ''key'', id' = ''ws/ds/3/extra'',
           dataset_id = ''ds'', version = ''3'', colors = [], api_url = None,
           type' = None, job_id = None \<rparr>"
  by (simp add: init_def)

subsection \<open>Blocking poll\<close>

text \<open>C6. If the single polls of the first \<open>n\<close> passes of the loop return the empty dict and
  the next one returns a non-empty result \<open>p\<close>, then \<^verbatim>\<open>poll_until_video_results\<close> returns
  \<open>p\<close> after exactly \<open>n + 1\<close> passes: \<open>n + 1\<close> progress messages, one before each single poll,
  and \<open>n + 1\<close> sleeps of 60 seconds, one after each single poll and so one after the last
  poll too. For the scenario "not ready twice, then ready" that is 3 single polls and 3
  sleeps, not 2.\<close>

theorem poll_until_first_nonempty:
  assumes "\<forall>k < n. fst (round_result e c k (after_rounds e c 0 k w)) = Inr (JObj [])"
    and "round_result e c n (after_rounds e c 0 n w) = (Inr p, w')"
    and "p \<noteq> JObj []"
  shows "poll_until_video_results e c job_id_arg w = Some (Inr p, w' @ [Sleep 60])
       \<and> sleeps (w' @ [Sleep 60]) = sleeps w @ replicate (Suc n) 60
       \<and> prints (w' @ [Sleep 60]) = prints w @ map progress_message [0 ..< Suc n]"
proof (intro conjI)
  from assms(2) have fstn: "fst (round_result e c (0 + n) (after_rounds e c 0 n w)) = Inr p"
    and sndn: "snd (round_result e c (0 + n) (after_rounds e c 0 n w)) = w'" by simp_all
  from assms(1) have empties:
    "\<forall>k < n. fst (round_result e c (0 + k) (after_rounds e c 0 k w)) = Inr (JObj [])" by simp
  have loop: "poll_loop e c 0 w = Some (Inr p, w' @ [Sleep 60])"
    using poll_loop_rounds [OF empties fstn assms(3)] sndn by simp
  from fstn obtain j where "self_job_id c = Inr j"
    using round_ok_job_id by blast
  then show "poll_until_video_results e c job_id_arg w = Some (Inr p, w' @ [Sleep 60])"
    using loop by (cases job_id_arg) (simp_all add: poll_until_video_results_def)
  have w': "w' = snd (poll_for_video_results e c None
                 (after_rounds e c 0 n w @ [Print (progress_message n)]))"
    using assms(2) by (simp add: round_result_def)
  show "sleeps (w' @ [Sleep 60]) = sleeps w @ replicate (Suc n) 60"
    by (simp add: w' sleeps_after_rounds replicate_append_same)
  show "prints (w' @ [Sleep 60]) = prints w @ map progress_message [0 ..< Suc n]"
    by (simp add: w' prints_after_rounds)
qed

text \<open>The theorem with \<open>n = 2\<close>, against the remote side that reports "not ready" twice.\<close>

theorem poll_until_first_nonempty_witness:
  "fst (round_result (stub_env scripted) poller 0 []) = Inr (JObj [])
   \<and> fst (round_result (stub_env scripted) poller 1
            (after_rounds (stub_env scripted) poller 0 1 [])) = Inr (JObj [])
   \<and> fst (round_result (stub_env scripted) poller 2
            (after_rounds (stub_env scripted) poller 0 2 [])) = Inr (JObj [(''frame_0'', JObj [])])
   \<and> poll_until_video_results (stub_env scripted) poller None [] =
       Some (Inr (JObj [(''frame_0'', JObj [])]),
             snd (round_result (stub_env scripted) poller 2
                    (after_rounds (stub_env scripted) poller 0 2 [])) @ [Sleep 60])
   \<and> sleeps (snd (round_result (stub_env scripted) poller 2
                    (after_rounds (stub_env scripted) poller 0 2 [])) @ [Sleep 60]) = [60, 60, 60]
   \<and> length (prints (snd (round_result (stub_env scripted) poller 2
                    (after_rounds (stub_env scripted) poller 0 2 [])) @ [Sleep 60])) = 3"
proof -
  let ?e = "stub_env scripted"
  let ?s = "Http (status_request ?e poller ''abc123'')"
  note ev = round_result_def poll_for_video_results_def self_job_id_def call_def
    status_request_def results_request_def json_headers_def scripted_def fixture_defs
  have r0: "round_result ?e poller 0 [] = (Inr (JObj []), [Print (progress_message 0), ?s])"
    by (simp add: ev)
  have a1: "after_rounds ?e poller 0 (Suc 0) [] = [Print (progress_message 0), ?s, Sleep 60]"
    by (simp add: r0)
  have r1: "round_result ?e poller (Suc 0) [Print (progress_message 0), ?s, Sleep 60] =
      (Inr (JObj []), [Print (progress_message 0), ?s, Sleep 60, Print (progress_message (Suc 0)), ?s])"
    by (simp add: ev)
  have a2: "after_rounds ?e poller 0 (Suc (Suc 0)) [] =
      [Print (progress_message 0), ?s, Sleep 60, Print (progress_message (Suc 0)), ?s, Sleep 60]"
    by (simp add: r0 r1)
  have r2: "round_result ?e poller (Suc (Suc 0))
       [Print (progress_message 0), ?s, Sleep 60, Print (progress_message (Suc 0)), ?s, Sleep 60] =
      (Inr (JObj [(''frame_0'', JObj [])]),
       [Print (progress_message 0), ?s, Sleep 60, Print (progress_message (Suc 0)), ?s, Sleep 60,
        Print (progress_message (Suc (Suc 0))), ?s, Http (results_request (JStr ''http://x''))])"
    by (simp add: ev)
  have two: "(2::nat) = Suc (Suc 0)" and one: "(1::nat) = Suc 0" by simp_all
  have empties: "\<forall>k < Suc (Suc 0). fst (round_result ?e poller k (after_rounds ?e poller 0 k [])) = Inr (JObj [])"
    using r0 r1 a1 by (simp add: less_Suc_eq)
  have last: "round_result ?e poller (Suc (Suc 0)) (after_rounds ?e poller 0 (Suc (Suc 0)) []) =
      (Inr (JObj [(''frame_0'', JObj [])]),
       [Print (progress_message 0), ?s, Sleep 60, Print (progress_message (Suc 0)), ?s, Sleep 60,
        Print (progress_message (Suc (Suc 0))), ?s, Http (results_request (JStr ''http://x''))])"
    using r2 a2 by simp
  have ne: "JObj [(''frame_0'', JObj [])] \<noteq> JObj []" by simp
  from poll_until_first_nonempty [OF empties last ne, of None]
  show ?thesis
    unfolding two one using r0 r1 a1 a2 last by simp
qed

text \<open>The whole trace of that scenario: it ends with a third \<^verbatim>\<open>time.sleep(60)\<close>, after the
  poll that fetched the results.\<close>

theorem poll_until_sleeps_after_final_poll:
  "poll_until_video_results (stub_env scripted) poller (Some ''abc123'') [] =
     Some (Inr (JObj [(''frame_0'', JObj [])]),
       [Print ''(0s): Checking for inference results'',
        Http (status_request (stub_env scripted) poller ''abc123''),
        Sleep 60,
        Print ''(60s): Checking for inference results'',
        Http (status_request (stub_env scripted) poller ''abc123''),
        Sleep 60,
        Print ''(120s): Checking for inference results'',
        Http (status_request (stub_env scripted) poller ''abc123''),
        Http (results_request (JStr ''http://x'')),
        Sleep 60])"
  apply (simp add: poll_until_video_results_def self_job_id_def poller_def)
  apply (subst poll_loop.simps)
  apply (simp add: msgs poll_for_video_results_def self_job_id_def
  stub_env_def scripted_def detector_def reply_def call_def results_request_def
  json_headers_def status_request_def)
  apply (subst poll_loop.simps)
  apply (simp add: msgs poll_for_video_results_def self_job_id_def
  stub_env_def scripted_def detector_def reply_def call_def results_request_def
  json_headers_def status_request_def)
  apply (subst poll_loop.simps)
  apply (simp add: msgs poll_for_video_results_def self_job_id_def
  stub_env_def scripted_def detector_def reply_def call_def results_request_def
  json_headers_def status_request_def)
  done

subsection \<open>Request builder\<close>

text \<open>C7. For an image reference that \<^verbatim>\<open>validate_image_path\<close> accepts and whose scheme is
  \<^verbatim>\<open>http\<close> or \<^verbatim>\<open>https\<close>, the builder returns the query parameter \<^verbatim>\<open>image\<close> holding the
  reference, no request body and no headers, and the dimensions
  \<^verbatim>\<open>{"width": "Undefined", "height": "Undefined"}\<close>. The string is \<^verbatim>\<open>Undefined\<close>, not
  \<^verbatim>\<open>unknown\<close>.\<close>

theorem hosted_image_params:
  assumes "validate_image_path e image_path"
    and "urlparse_scheme e image_path = ''http'' \<or> urlparse_scheme e image_path = ''https''"
  shows "get_image_params e image_path =
     Inr ([(''image'', image_path)], \<lparr> kw_data = NoBody, kw_headers = None \<rparr>,
          [(''width'', ''Undefined''), (''height'', ''Undefined'')])"
  using assms by (auto simp: get_image_params_def)

text \<open>The theorem at \<^verbatim>\<open>http://example.com/dog.png\<close>.\<close>

theorem hosted_image_params_witness:
  "validate_image_path (stub_env (\<lambda>w r. Raises [])) ''http://example.com/dog.png''
   \<and> urlparse_scheme (stub_env (\<lambda>w r. Raises [])) ''http://example.com/dog.png'' = ''http''
   \<and> get_image_params (stub_env (\<lambda>w r. Raises [])) ''http://example.com/dog.png'' =
     Inr ([(''image'', ''http://example.com/dog.png'')],
          \<lparr> kw_data = NoBody, kw_headers = None \<rparr>,
          [(''width'', ''Undefined''), (''height'', ''Undefined'')])"
proof -
  have v: "validate_image_path (stub_env (\<lambda>w r. Raises [])) ''http://example.com/dog.png''"
    by (simp add: stub_env_def)
  have s: "urlparse_scheme (stub_env (\<lambda>w r. Raises [])) ''http://example.com/dog.png'' = ''http''"
    by (simp add: stub_env_def startswith_def)
  from hosted_image_params [OF v disjI1 [OF s]] v s show ?thesis by simp
qed

text \<open>The dimensions reported for \<^verbatim>\<open>https://example.com/cat.jpg\<close>.\<close>

theorem hosted_image_dims_undefined:
  "get_image_params (stub_env (\<lambda>w r. Raises [])) ''https://example.com/cat.jpg'' =
     Inr ([(''image'', ''https://example.com/cat.jpg'')],
          \<lparr> kw_data = NoBody, kw_headers = None \<rparr>,
          [(''width'', ''Undefined''), (''height'', ''Undefined'')])
   \<and> ''Undefined'' \<noteq> ''unknown''"
  by (simp add: get_image_params_def stub_env_def startswith_def)

text \<open>C8. For a local path that \<^verbatim>\<open>validate_image_path\<close> accepts, that \<^verbatim>\<open>Image.open\<close> opens
  and that \<^verbatim>\<open>Image.save\<close> re-encodes as JPEG at quality 90, the builder returns no query
  parameters, a multipart body with one part whose field name is \<^verbatim>\<open>file\<close>, whose file name
  is \<^verbatim>\<open>imageToUpload\<close>, whose content is the JPEG buffer and whose content type is
  \<^verbatim>\<open>image/jpeg\<close>, the encoder's \<^verbatim>\<open>Content-Type\<close> header, and the decoded width and height
  written in decimal. \<^verbatim>\<open>imageToUpload\<close> is the file name of the part, not its field name.\<close>

theorem local_image_params:
  assumes "validate_image_path e image_path"
    and "urlparse_scheme e image_path \<noteq> ''http''"
    and "urlparse_scheme e image_path \<noteq> ''https''"
    and "image_open e image_path = Some img"
    and "save_jpeg e img 90 = Some buffered"
  shows "get_image_params e image_path =
     Inr ([],
          \<lparr> kw_data = Multipart [\<lparr> field_name = ''file'', filename = ''imageToUpload'',
                                    content = buffered, content_type = ''image/jpeg'' \<rparr>],
            kw_headers = Some [(''Content-Type'', ''multipart/form-data; boundary='' @ boundary e)] \<rparr>,
          [(''width'', str (fst (size' img))), (''height'', str (snd (size' img)))])"
  using assms by (simp add: get_image_params_def multipart_content_type_def Let_def)

text \<open>The theorem at \<^verbatim>\<open>cat.jpg\<close>, 200 by 150 pixels.\<close>

theorem local_image_params_witness:
  "validate_image_path (stub_env (\<lambda>w r. Raises [])) ''cat.jpg''
   \<and> urlparse_scheme (stub_env (\<lambda>w r. Raises [])) ''cat.jpg'' \<noteq> ''http''
   \<and> urlparse_scheme (stub_env (\<lambda>w r. Raises [])) ''cat.jpg'' \<noteq> ''https''
   \<and> image_open (stub_env (\<lambda>w r. Raises [])) ''cat.jpg'' = Some \<lparr> size' = (200, 150), pixels = [7, 7] \<rparr>
   \<and> save_jpeg (stub_env (\<lambda>w r. Raises [])) \<lparr> size' = (200, 150), pixels = [7, 7] \<rparr> 90 = Some [255, 216, 90]
   \<and> get_image_params (stub_env (\<lambda>w r. Raises [])) ''cat.jpg'' =
     Inr ([],
          \<lparr> kw_data = Multipart [\<lparr> field_name = ''file'', filename = ''imageToUpload'',
                                    content = [255, 216, 90], content_type = ''image/jpeg'' \<rparr>],
            kw_headers = Some [(''Content-Type'', ''multipart/form-data; boundary=b0'')] \<rparr>,
          [(''width'', ''200''), (''height'', ''150'')])"
proof -
  let ?e = "stub_env (\<lambda>w r. Raises [])"
  let ?img = "\<lparr> size' = (200, 150), pixels = [7, 7] \<rparr>"
  have a: "validate_image_path ?e ''cat.jpg''" by (simp add: stub_env_def)
  have b: "urlparse_scheme ?e ''cat.jpg'' \<noteq> ''http''" by (simp add: stub_env_def startswith_def)
  have c: "urlparse_scheme ?e ''cat.jpg'' \<noteq> ''https''" by (simp add: stub_env_def startswith_def)
  have d: "image_open ?e ''cat.jpg'' = Some ?img" by (simp add: stub_env_def)
  have f: "save_jpeg ?e ?img 90 = Some [255, 216, 90]" by (simp add: stub_env_def)
  have s: "str 200 = ''200''" "str 150 = ''150''" by (simp_all add: str.simps digit_def)
  have bd: "boundary ?e = ''b0''" by (simp add: stub_env_def)
  from local_image_params [OF a b c d f] a b c d f s bd show ?thesis by simp
qed

text \<open>The part built for \<^verbatim>\<open>cat.jpg\<close>: its field name is \<^verbatim>\<open>file\<close>.\<close>

theorem local_image_field_name:
  "get_image_params (stub_env (\<lambda>w r. Raises [])) ''cat.jpg'' =
     Inr ([],
          \<lparr> kw_data = Multipart [\<lparr> field_name = ''file'', filename = ''imageToUpload'',
                                    content = [255, 216, 90], content_type = ''image/jpeg'' \<rparr>],
            kw_headers = Some [(''Content-Type'', ''multipart/form-data; boundary=b0'')] \<rparr>,
          [(''width'', ''200''), (''height'', ''150'')])
   \<and> ''file'' \<noteq> ''imageToUpload''"
  by (simp add: get_image_params_def multipart_content_type_def stub_env_def startswith_def
      str.simps digit_def)

subsection \<open>Validation before any request\<close>

text \<open>C9. When \<open>fps > 5\<close>, or a requested additional model is neither \<^verbatim>\<open>clip\<close> nor
  \<^verbatim>\<open>gaze\<close>, or the prediction type is not \<^verbatim>\<open>batch-video\<close>, \<^verbatim>\<open>predict_video\<close> raises an
  exception and leaves the trace and the instance as they were: no request has been
  issued.\<close>

theorem predict_video_rejects_before_any_request:
  assumes "fps > 5
     \<or> (\<exists>m \<in> set additional_models. m \<noteq> ''clip'' \<and> m \<noteq> ''gaze'')
     \<or> prediction_type \<noteq> ''batch-video''"
  shows "\<exists>msg. predict_video e c video_path fps additional_models prediction_type w =
           (Inl (Exception msg), c, w)"
proof (cases "fps > 5")
  case True
  then show ?thesis by (simp add: predict_video_def)
next
  case nofps: False
  show ?thesis
  proof (cases "first_unsupported additional_models")
    case (Some m)
    with nofps show ?thesis by (simp add: predict_video_def)
  next
    case None
    then have "\<forall>m \<in> set additional_models. m = ''clip'' \<or> m = ''gaze''"
      by (simp add: first_unsupported_None)
    with assms nofps have "prediction_type \<noteq> ''batch-video''" by blast
    with nofps None show ?thesis
      by (simp add: predict_video_def SUPPORTED_ROBOFLOW_MODELS_def)
  qed
qed

text \<open>The theorem at \<open>fps = 6\<close>, at the additional model \<^verbatim>\<open>unknown\<close> and at the prediction
  type \<^verbatim>\<open>stream\<close>.\<close>

theorem predict_video_rejects_witness:
  "predict_video (stub_env upload_server) detector ''v.mp4'' 6 [] ''batch-video'' [] =
     (Inl (Exception ''FPS must be less than or equal to 5.''), detector, [])
   \<and> predict_video (stub_env upload_server) detector ''v.mp4'' 5 [''clip'', ''unknown''] ''batch-video'' [] =
     (Inl (Exception ''Model unknown is not supported for video inference.''), detector, [])
   \<and> predict_video (stub_env upload_server) detector ''v.mp4'' 5 [] ''stream'' [] =
     (Inl (Exception ''stream is not supported for video inference.''), detector, [])"
proof -
  have a: "(6::int) > 5 \<or> (\<exists>m \<in> set []. m \<noteq> ''clip'' \<and> m \<noteq> ''gaze'') \<or> ''batch-video'' \<noteq> ''batch-video''"
    by simp
  have b: "(5::int) > 5 \<or> (\<exists>m \<in> set [''clip'', ''unknown'']. m \<noteq> ''clip'' \<and> m \<noteq> ''gaze'')
      \<or> ''batch-video'' \<noteq> ''batch-video''"
    by simp
  have c: "(5::int) > 5 \<or> (\<exists>m \<in> set []. m \<noteq> ''clip'' \<and> m \<noteq> ''gaze'') \<or> ''stream'' \<noteq> ''batch-video''"
    by simp
  from predict_video_rejects_before_any_request [OF a, of "stub_env upload_server" detector "''v.mp4''" "[]"]
    predict_video_rejects_before_any_request [OF b, of "stub_env upload_server" detector "''v.mp4''" "[]"]
    predict_video_rejects_before_any_request [OF c, of "stub_env upload_server" detector "''v.mp4''" "[]"]
  show ?thesis
    by (simp add: predict_video_def first_unsupported_def SUPPORTED_ADDITIONAL_MODELS_def
        SUPPORTED_ROBOFLOW_MODELS_def)
qed

subsection \<open>The job submission\<close>

text \<open>C10. The claim: every valid call submits a job whose body holds the source URL, the
  frame rate 5 and the ensemble, and returns the job id with the source URL. For a local
  file the code does so. For a video reference that is an http(s) URL it does not: whatever
  the other arguments, the call ends in an exception, issues no request and caches no job
  id (the unbound \<^verbatim>\<open>headers\<close> of C3).\<close>

theorem predict_video_url_never_submits:
  assumes "startswith video_path ''http://'' \<or> startswith video_path ''https://''"
    and "predict_video e c video_path fps additional_models prediction_type w = (r, c', w')"
  shows "isl r \<and> w' = w \<and> job_id c' = job_id c"
proof -
  show ?thesis
    using assms
    by (auto simp: predict_video_def Let_def split: if_splits option.splits
        dest!: submit_job_unbound)
qed

text \<open>The theorem at \<^verbatim>\<open>predict_video("http://example.com/v.mp4", fps=3,
  additional_models=["clip"])\<close>.\<close>

theorem predict_video_url_never_submits_witness:
  "predict_video (stub_env upload_server) detector ''http://example.com/v.mp4'' 3 [''clip'']
       ''batch-video'' [] =
     (Inl (UnboundLocalError ''headers''), detector\<lparr> type' := Some ''object-detection'' \<rparr>, [])
   \<and> isl (Inl (UnboundLocalError ''headers'') :: error + json \<times> json)
   \<and> job_id (detector\<lparr> type' := Some ''object-detection'' \<rparr>) = job_id detector"
proof -
  have u: "startswith ''http://example.com/v.mp4'' ''http://''
         \<or> startswith ''http://example.com/v.mp4'' ''https://''"
    by (simp add: startswith_def)
  have run: "predict_video (stub_env upload_server) detector ''http://example.com/v.mp4'' 3 [''clip'']
       ''batch-video'' [] =
     (Inl (UnboundLocalError ''headers''), detector\<lparr> type' := Some ''object-detection'' \<rparr>, [])"
    by (simp add: predict_video_def first_unsupported_def SUPPORTED_ADDITIONAL_MODELS_def
        SUPPORTED_ROBOFLOW_MODELS_def resolve_type_def detector_def startswith_def
        submit_job_def)
  from predict_video_url_never_submits [OF u run] run show ?thesis by simp
qed

text \<open>The same call for the local file \<^verbatim>\<open>v.mp4\<close> with \<open>fps = 2\<close>: three requests, the body
  of the last with \<^verbatim>\<open>infer_fps\<close> 5 and the primary descriptor followed by \<^verbatim>\<open>gaze\<close> and \<^verbatim>\<open>clip\<close>
  in the order requested.\<close>

lemma predict_video_local_scenario:
  "predict_video (stub_env upload_server) detector ''v.mp4'' 2 [''gaze'', ''clip''] ''batch-video'' [] =
     (Inr (JStr ''abc123'', JStr ''https://storage.example/put-here''),
      detector\<lparr> type' := Some ''object-detection'', job_id := Some (JStr ''abc123'') \<rparr>,
      [Http (signed_url_request (stub_env upload_server) detector ''v.mp4''),
       Http (put_request (JStr ''https://storage.example/put-here'') [0, 1, 2]),
       Http \<lparr> req_method = ''POST'',
                req_url = Joined ''https://api.roboflow.com'' ''/videoinfer/?api_key=KEY'',
                req_headers = Some [(''Content-Type'', ''application/octet-stream'')],
                req_body = JsonText (JObj
                  [(''input_url'', JStr ''https://storage.example/put-here''),
                   (''infer_fps'', JInt 5),
                   (''models'', JList
                      [JObj [(''model_id'', JStr ''ds''), (''model_version'', JStr ''3''),
                             (''inference_type'', JStr ''object-detection'')],
                       JObj [(''model_id'', JStr ''gaze''), (''model_version'', JStr ''1''),
                             (''inference_type'', JStr ''gaze-detection'')],
                       JObj [(''model_id'', JStr ''clip''), (''model_version'', JStr ''1''),
                             (''inference_type'', JStr ''clip-embed-image'')]])]) \<rparr>])"
  by (simp add: predict_video_def first_unsupported_def SUPPORTED_ADDITIONAL_MODELS_def
      SUPPORTED_ROBOFLOW_MODELS_def resolve_type_def upload_video_def submit_job_def
      job_payload_def call_def signed_url_request_def put_request_def upload_server_def
      stub_env_def reply_def detector_def startswith_def Let_def)

end
